theory Spec2Isabelle
  imports Main "HOL-Library.AList"
begin

section \<open>Python values and errors\<close>

text \<open>
  The pipeline descriptor is what \<^verbatim>\<open>yaml.load\<close> returns: a tree of mappings, sequences
  and scalars. A mapping is an association list in insertion order, as a Python dict is;
  its keys are strings. The descriptor is mutated in place by \<^verbatim>\<open>_adjust_paths\<close> and handed
  back to the caller, so the model passes the updated tree on (a descriptor loaded from a
  YAML document without anchors shares no sub-object).
\<close>

datatype pyval =
    PNone
  | PBool bool
  | PInt int
  | PStr string
  | PList "pyval list"
  | PDict "(string \<times> pyval) list"

text \<open>
  Every \<^verbatim>\<open>raise\<close> of the source and every exception of the Python operations it uses is a
  value. The five \<^verbatim>\<open>RuntimeError\<close>s of \<^verbatim>\<open>_utils.py\<close> are told apart by their message;
  the constructor carries the part of the message that varies (the section, the key, the
  uri, the suffix).
\<close>

datatype error =
    SectionNotDefined string
  | UnknownSection string
  | UriMissing
  | StorageFileMissing string
  | UnsupportedFormat string
  | KeyError string
  | TypeError
  | AttributeError
  | IndexError
  | OSError string
  | ValueError string
  | YAMLError
  | RepresenterError
  | IncompleteResultsError

definition ebind :: "error + 'a \<Rightarrow> ('a \<Rightarrow> error + 'b) \<Rightarrow> error + 'b" where
  "ebind m f = (case m of Inl e \<Rightarrow> Inl e | Inr x \<Rightarrow> f x)"

subsection \<open>Strings\<close>

definition startswith :: "string \<Rightarrow> string \<Rightarrow> bool" where
  "startswith s pre = (take (length pre) s = pre)"

definition endswith :: "string \<Rightarrow> string \<Rightarrow> bool" where
  "endswith s suf = (length suf \<le> length s \<and> drop (length s - length suf) s = suf)"

fun is_substr :: "string \<Rightarrow> string \<Rightarrow> bool" where
  "is_substr sub [] = (sub = [])"
| "is_substr sub (c # cs) = (startswith (c # cs) sub \<or> is_substr sub cs)"

subsection \<open>Operations on values\<close>

text \<open>\<^verbatim>\<open>k in v\<close> for a string \<open>k\<close>: key of a dict, element of a list, substring of a string.\<close>

definition py_contains :: "pyval \<Rightarrow> string \<Rightarrow> error + bool" where
  "py_contains v k =
     (case v of
        PDict d \<Rightarrow> Inr (k \<in> set (map fst d))
      | PList xs \<Rightarrow> Inr (PStr k \<in> set xs)
      | PStr s \<Rightarrow> Inr (is_substr k s)
      | _ \<Rightarrow> Inl TypeError)"

text \<open>\<^verbatim>\<open>v[k]\<close> for a string \<open>k\<close>.\<close>

definition getitem :: "pyval \<Rightarrow> string \<Rightarrow> error + pyval" where
  "getitem v k =
     (case v of
        PDict d \<Rightarrow> (case map_of d k of Some x \<Rightarrow> Inr x | None \<Rightarrow> Inl (KeyError k))
      | _ \<Rightarrow> Inl TypeError)"

text \<open>\<^verbatim>\<open>v[k] = x\<close> for a string \<open>k\<close>: an existing key keeps its place, a new one goes last.\<close>

definition setitem :: "pyval \<Rightarrow> string \<Rightarrow> pyval \<Rightarrow> error + pyval" where
  "setitem v k x =
     (case v of
        PDict d \<Rightarrow> Inr (PDict (AList.update k x d))
      | _ \<Rightarrow> Inl TypeError)"

text \<open>\<^verbatim>\<open>v.pop(k)\<close> on a dict, keeping the rest.\<close>

definition py_pop :: "pyval \<Rightarrow> string \<Rightarrow> error + (pyval \<times> pyval)" where
  "py_pop v k =
     (case v of
        PDict d \<Rightarrow> (case map_of d k of
                      Some x \<Rightarrow> Inr (x, PDict (AList.delete k d))
                    | None \<Rightarrow> Inl (KeyError k))
      | PList xs \<Rightarrow> Inl TypeError
      | _ \<Rightarrow> Inl AttributeError)"

text \<open>\<^verbatim>\<open>v.keys()\<close>.\<close>

definition py_keys :: "pyval \<Rightarrow> error + string list" where
  "py_keys v = (case v of PDict d \<Rightarrow> Inr (map fst d) | _ \<Rightarrow> Inl AttributeError)"

text \<open>\<^verbatim>\<open>list(v)\<close>: a string gives its characters, a dict its keys.\<close>

definition py_list :: "pyval \<Rightarrow> error + pyval list" where
  "py_list v =
     (case v of
        PList xs \<Rightarrow> Inr xs
      | PStr s \<Rightarrow> Inr (map (\<lambda>c. PStr [c]) s)
      | PDict d \<Rightarrow> Inr (map (\<lambda>kv. PStr (fst kv)) d)
      | _ \<Rightarrow> Inl TypeError)"

text \<open>\<^verbatim>\<open>w.endswith(suf)\<close>: only a string has the method.\<close>

definition py_endswith :: "pyval \<Rightarrow> string \<Rightarrow> error + bool" where
  "py_endswith w suf = (case w of PStr s \<Rightarrow> Inr (endswith s suf) | _ \<Rightarrow> Inl AttributeError)"

section \<open>Paths\<close>

text \<open>
  A path is the string Python's \<^verbatim>\<open>pathlib\<close> prints for it (POSIX flavour). What depends
  on the file system (\<^verbatim>\<open>str(Path(p).resolve())\<close>, which needs the working directory and
  the symbolic links) is a parameter \<open>resolve\<close> of the functions that use it.
\<close>

definition is_absolute :: "string \<Rightarrow> bool" where
  "is_absolute p = (case p of [] \<Rightarrow> False | c # _ \<Rightarrow> c = CHR ''/'')"

text \<open>\<^verbatim>\<open>base / path\<close>: an absolute right operand replaces the left one.\<close>

definition joinpath :: "string \<Rightarrow> string \<Rightarrow> string" where
  "joinpath base p = (if is_absolute p then p else base @ ''/'' @ p)"

fun split_slash :: "string \<Rightarrow> string list" where
  "split_slash [] = [[]]"
| "split_slash (c # cs) =
     (if c = CHR ''/'' then [] # split_slash cs
      else (case split_slash cs of [] \<Rightarrow> [[c]] | x # xs \<Rightarrow> (c # x) # xs))"

fun join_slash :: "string list \<Rightarrow> string" where
  "join_slash [] = []"
| "join_slash [x] = x"
| "join_slash (x # y # ys) = x @ ''/'' @ join_slash (y # ys)"

text \<open>The parts of a path after the root: empty parts and \<open>.\<close> are dropped, \<open>..\<close> is kept.\<close>

definition components :: "string \<Rightarrow> string list" where
  "components p = filter (\<lambda>c. c \<noteq> [] \<and> c \<noteq> ''.'') (split_slash p)"

text \<open>\<^verbatim>\<open>Path(p).parent\<close>, \<^verbatim>\<open>Path(p).name\<close> and \<^verbatim>\<open>Path(p).suffix\<close>.\<close>

definition parent :: "string \<Rightarrow> string" where
  "parent p =
     (let cs = butlast (components p)
      in if is_absolute p then CHR ''/'' # join_slash cs
         else if cs = [] then ''.'' else join_slash cs)"

definition name_of :: "string \<Rightarrow> string" where
  "name_of p = (case components p of [] \<Rightarrow> [] | c # cs \<Rightarrow> last (c # cs))"

fun rfind_dot :: "string \<Rightarrow> nat option" where
  "rfind_dot [] = None"
| "rfind_dot (c # cs) =
     (case rfind_dot cs of
        Some i \<Rightarrow> Some (Suc i)
      | None \<Rightarrow> if c = CHR ''.'' then Some 0 else None)"

definition suffix_of :: "string \<Rightarrow> string" where
  "suffix_of p =
     (let n = name_of p
      in case rfind_dot n of
           None \<Rightarrow> []
         | Some i \<Rightarrow> if 0 < i \<and> Suc i < length n then drop i n else [])"

text \<open>
  One \<open>resolve\<close>, for concrete runs: a file system without symbolic links, with working
  directory \<open>cwd\<close>. The path is made absolute, then \<open>.\<close>, empty parts and \<open>..\<close> are
  collapsed from left to right.
\<close>

fun norm_parts :: "string list \<Rightarrow> string list \<Rightarrow> string list" where
  "norm_parts acc [] = acc"
| "norm_parts acc (c # cs) =
     (if c = [] \<or> c = ''.'' then norm_parts acc cs
      else if c = ''..'' then norm_parts (butlast acc) cs
      else norm_parts (acc @ [c]) cs)"

definition posix_resolve :: "string \<Rightarrow> string \<Rightarrow> string" where
  "posix_resolve cwd p = CHR ''/'' # join_slash (norm_parts [] (split_slash (joinpath cwd p)))"

section \<open>Path normalisation of the descriptor\<close>

text \<open>
  \<^verbatim>\<open>_make_absolute_path(path, base_path)\<close>: \<^verbatim>\<open>Path(path)\<close> raises a TypeError on anything
  but a string; a relative path is joined to the base; the result is resolved.
\<close>

definition make_absolute_path :: "(string \<Rightarrow> string) \<Rightarrow> pyval \<Rightarrow> string \<Rightarrow> error + string" where
  "make_absolute_path resolve path base_path =
     (case path of
        PStr p \<Rightarrow> Inr (resolve (if \<not> is_absolute p then joinpath base_path p else p))
      | _ \<Rightarrow> Inl TypeError)"

text \<open>
  \<^verbatim>\<open>_adjust_paths(data, yaml_path)\<close>, one definition for each of its three blocks. The
  first: \<^verbatim>\<open>if "workdir" in data\<close>, a string is replaced, otherwise the \<open>path\<close> field of the
  value is.
\<close>

definition adjust_workdir :: "(string \<Rightarrow> string) \<Rightarrow> pyval \<Rightarrow> string \<Rightarrow> error + pyval" where
  "adjust_workdir resolve data yaml_path =
     ebind (py_contains data ''workdir'') (\<lambda>present.
       if present then
         ebind (getitem data ''workdir'') (\<lambda>wd.
           case wd of
             PStr s \<Rightarrow>
               ebind (make_absolute_path resolve wd (parent yaml_path)) (\<lambda>p.
                 setitem data ''workdir'' (PStr p))
           | _ \<Rightarrow>
               ebind (getitem wd ''path'') (\<lambda>old.
               ebind (make_absolute_path resolve old (parent yaml_path)) (\<lambda>p.
               ebind (setitem wd ''path'' (PStr p)) (\<lambda>wd'.
                 setitem data ''workdir'' wd'))))
       else Inr data)"

text \<open>
  The second block: \<^verbatim>\<open>if "with" in data\<close>, a value that is not a list goes through
  \<^verbatim>\<open>list(...)\<close>, then every entry that ends in \<open>.py\<close> is made absolute.
\<close>

fun adjust_mods :: "(string \<Rightarrow> string) \<Rightarrow> string \<Rightarrow> pyval list \<Rightarrow> error + pyval list" where
  "adjust_mods resolve base [] = Inr []"
| "adjust_mods resolve base (w # ws) =
     ebind (py_endswith w ''.py'') (\<lambda>is_py.
     ebind (if is_py then ebind (make_absolute_path resolve w base) (\<lambda>p. Inr (PStr p))
            else Inr w) (\<lambda>m.
     ebind (adjust_mods resolve base ws) (\<lambda>ms. Inr (m # ms))))"

definition adjust_with :: "(string \<Rightarrow> string) \<Rightarrow> pyval \<Rightarrow> string \<Rightarrow> error + pyval" where
  "adjust_with resolve data yaml_path =
     ebind (py_contains data ''with'') (\<lambda>present.
       if present then
         ebind (getitem data ''with'') (\<lambda>w.
         ebind (case w of PList xs \<Rightarrow> Inr xs | _ \<Rightarrow> py_list w) (\<lambda>ws.
         ebind (adjust_mods resolve (parent yaml_path) ws) (\<lambda>mods.
           setitem data ''with'' (PList mods))))
       else Inr data)"

text \<open>The third block: \<^verbatim>\<open>data["storage"]["uri"]\<close> is always rewritten.\<close>

definition adjust_storage :: "(string \<Rightarrow> string) \<Rightarrow> pyval \<Rightarrow> string \<Rightarrow> error + pyval" where
  "adjust_storage resolve data yaml_path =
     ebind (getitem data ''storage'') (\<lambda>st.
     ebind (getitem st ''uri'') (\<lambda>old.
     ebind (make_absolute_path resolve old (parent yaml_path)) (\<lambda>p.
     ebind (setitem st ''uri'' (PStr p)) (\<lambda>st'.
       setitem data ''storage'' st'))))"

definition adjust_paths :: "(string \<Rightarrow> string) \<Rightarrow> pyval \<Rightarrow> string \<Rightarrow> error + pyval" where
  "adjust_paths resolve data yaml_path =
     ebind (adjust_workdir resolve data yaml_path) (\<lambda>d1.
     ebind (adjust_with resolve d1 yaml_path) (\<lambda>d2.
       adjust_storage resolve d2 yaml_path))"

section \<open>Python objects on a heap\<close>

text \<open>
  \<^verbatim>\<open>_feature_yaml_from_meta\<close> copies the sub-mappings of the metadata record and then
  removes and renames keys of the copies, while the record itself stays in use by the
  caller. Whether the record is touched depends on which object each statement writes to,
  so here dicts and lists are objects on a heap: an address is an index into the list of
  objects, a new object goes to the end, and a value is a scalar or a reference.
\<close>

datatype val = VNone | VBool bool | VInt int | VStr string | VRef nat

datatype obj = ODict "(string \<times> val) list" | OList "val list"

type_synonym heap = "obj list"

text \<open>
  A statement takes the heap and returns its result or the exception it raised, with the
  heap as it is then.
\<close>

type_synonym 'a hm = "heap \<Rightarrow> (error + 'a) \<times> heap"

definition hret :: "'a \<Rightarrow> 'a hm" where
  "hret x = (\<lambda>h. (Inr x, h))"

definition hbind :: "'a hm \<Rightarrow> ('a \<Rightarrow> 'b hm) \<Rightarrow> 'b hm" where
  "hbind m f = (\<lambda>h. case m h of (Inl e, h') \<Rightarrow> (Inl e, h') | (Inr x, h') \<Rightarrow> f x h')"

text \<open>The object a value refers to, if it is a reference into the heap.\<close>

definition obj_at :: "heap \<Rightarrow> val \<Rightarrow> obj option" where
  "obj_at h v = (case v of VRef a \<Rightarrow> if a < length h then Some (h ! a) else None | _ \<Rightarrow> None)"

definition new_obj :: "obj \<Rightarrow> val hm" where
  "new_obj ob = (\<lambda>h. (Inr (VRef (length h)), h @ [ob]))"

text \<open>\<^verbatim>\<open>k in v\<close>, \<^verbatim>\<open>v[k]\<close>, \<^verbatim>\<open>v[i]\<close>, \<^verbatim>\<open>v.keys()\<close>: they read the heap.\<close>

definition h_contains :: "val \<Rightarrow> string \<Rightarrow> bool hm" where
  "h_contains v k = (\<lambda>h.
     case obj_at h v of
       Some (ODict d) \<Rightarrow> (Inr (k \<in> set (map fst d)), h)
     | Some (OList xs) \<Rightarrow> (Inr (VStr k \<in> set xs), h)
     | None \<Rightarrow> (case v of VStr s \<Rightarrow> (Inr (is_substr k s), h) | _ \<Rightarrow> (Inl TypeError, h)))"

definition h_getitem :: "val \<Rightarrow> string \<Rightarrow> val hm" where
  "h_getitem v k = (\<lambda>h.
     case obj_at h v of
       Some (ODict d) \<Rightarrow>
         (case map_of d k of Some x \<Rightarrow> (Inr x, h) | None \<Rightarrow> (Inl (KeyError k), h))
     | _ \<Rightarrow> (Inl TypeError, h))"

definition h_getindex :: "val \<Rightarrow> nat \<Rightarrow> val hm" where
  "h_getindex v i = (\<lambda>h.
     case obj_at h v of
       Some (OList xs) \<Rightarrow> if i < length xs then (Inr (xs ! i), h) else (Inl IndexError, h)
     | Some (ODict d) \<Rightarrow> (Inl (KeyError []), h)
     | None \<Rightarrow>
         (case v of
            VStr s \<Rightarrow> if i < length s then (Inr (VStr [s ! i]), h) else (Inl IndexError, h)
          | _ \<Rightarrow> (Inl TypeError, h)))"

definition h_keys :: "val \<Rightarrow> string list hm" where
  "h_keys v = (\<lambda>h.
     case obj_at h v of
       Some (ODict d) \<Rightarrow> (Inr (map fst d), h)
     | _ \<Rightarrow> (Inl AttributeError, h))"

text \<open>
  \<^verbatim>\<open>v[k] = x\<close>, \<^verbatim>\<open>v.pop(k)\<close>, \<^verbatim>\<open>v.append(x)\<close>: they write to the object \<open>v\<close> refers to.
  \<^verbatim>\<open>v.copy()\<close> makes a new object with the same entries (a shallow copy).
\<close>

definition h_setitem :: "val \<Rightarrow> string \<Rightarrow> val \<Rightarrow> unit hm" where
  "h_setitem v k x = (\<lambda>h.
     case v of
       VRef a \<Rightarrow>
         (case obj_at h v of
            Some (ODict d) \<Rightarrow> (Inr (), h[a := ODict (AList.update k x d)])
          | _ \<Rightarrow> (Inl TypeError, h))
     | _ \<Rightarrow> (Inl TypeError, h))"

definition h_pop :: "val \<Rightarrow> string \<Rightarrow> val hm" where
  "h_pop v k = (\<lambda>h.
     case v of
       VRef a \<Rightarrow>
         (case obj_at h v of
            Some (ODict d) \<Rightarrow>
              (case map_of d k of
                 Some x \<Rightarrow> (Inr x, h[a := ODict (AList.delete k d)])
               | None \<Rightarrow> (Inl (KeyError k), h))
          | _ \<Rightarrow> (Inl TypeError, h))
     | _ \<Rightarrow> (Inl AttributeError, h))"

definition h_append :: "val \<Rightarrow> val \<Rightarrow> unit hm" where
  "h_append v x = (\<lambda>h.
     case v of
       VRef a \<Rightarrow>
         (case obj_at h v of
            Some (OList xs) \<Rightarrow> (Inr (), h[a := OList (xs @ [x])])
          | _ \<Rightarrow> (Inl AttributeError, h))
     | _ \<Rightarrow> (Inl AttributeError, h))"

definition h_copy :: "val \<Rightarrow> val hm" where
  "h_copy v = (\<lambda>h.
     case obj_at h v of
       Some ob \<Rightarrow> new_obj ob h
     | None \<Rightarrow> (Inl AttributeError, h))"

section \<open>The recipe synthesizer\<close>

text \<open>
  \<^verbatim>\<open>_feature_yaml_from_meta(data, feature)\<close>, statement by statement; \<open>y\<close> is the dict under
  construction. Three statements occur more than once in the source, each time with another
  key or target, and are written once here:
  \<^item> \<^verbatim>\<open>y[k] = data[k].copy()\<close> is \<open>copy_section data y k\<close>;
  \<^item> \<^verbatim>\<open>a = T.pop("class"); T["kind"] = a\<close> is \<open>rename_class T\<close>, where the expression \<open>T\<close>
    (\<^verbatim>\<open>y["datagrabber"]\<close>, \<^verbatim>\<open>y["preprocess"]\<close> or \<^verbatim>\<open>y["markers"][0]\<close>) is evaluated by each
    of the two statements;
  \<^item> \<^verbatim>\<open>_ = T.pop(k)\<close> is \<open>pop_field T k\<close>.
\<close>

definition copy_section :: "val \<Rightarrow> val \<Rightarrow> string \<Rightarrow> unit hm" where
  "copy_section data y k =
     hbind (h_getitem data k) (\<lambda>v.
     hbind (h_copy v) (\<lambda>c.
       h_setitem y k c))"

definition rename_class :: "val hm \<Rightarrow> val hm" where
  "rename_class target =
     hbind target (\<lambda>t.
     hbind (h_pop t ''class'') (\<lambda>a.
     hbind target (\<lambda>t.
     hbind (h_setitem t ''kind'' a) (\<lambda>_. hret a))))"

definition pop_field :: "val hm \<Rightarrow> string \<Rightarrow> unit hm" where
  "pop_field target k =
     hbind target (\<lambda>t.
     hbind (h_pop t k) (\<lambda>_. hret ()))"

text \<open>\<^verbatim>\<open>if "with" in data: y["with"] = data["with"].copy()\<close>.\<close>

definition set_with :: "val \<Rightarrow> val \<Rightarrow> unit hm" where
  "set_with data y =
     hbind (h_contains data ''with'') (\<lambda>present.
       if present then copy_section data y ''with'' else hret ())"

text \<open>
  The loop over \<^verbatim>\<open>data["datagrabber"].keys()\<close>. The keys are those of the record's own
  datagrabber, which the loop does not write to.
\<close>

fun drop_datalad :: "val \<Rightarrow> string list \<Rightarrow> unit hm" where
  "drop_datalad y [] = hret ()"
| "drop_datalad y (k # ks) =
     (if startswith k ''datalad''
      then hbind (pop_field (h_getitem y ''datagrabber'') k) (\<lambda>_. drop_datalad y ks)
      else drop_datalad y ks)"

definition set_datagrabber :: "val \<Rightarrow> val \<Rightarrow> unit hm" where
  "set_datagrabber data y =
     hbind (copy_section data y ''datagrabber'') (\<lambda>_.
     hbind (rename_class (h_getitem y ''datagrabber'')) (\<lambda>a.
       if a \<noteq> VStr ''PatternDataGrabber'' \<and> a \<noteq> VStr ''PatternDataladDataGrabber'' then
         hbind (pop_field (h_getitem y ''datagrabber'') ''uri'') (\<lambda>_.
         hbind (pop_field (h_getitem y ''datagrabber'') ''rootdir'') (\<lambda>_.
         hbind (pop_field (h_getitem y ''datagrabber'') ''patterns'') (\<lambda>_.
         hbind (pop_field (h_getitem y ''datagrabber'') ''replacements'') (\<lambda>_.
         hbind (pop_field (h_getitem y ''datagrabber'') ''confounds_format'') (\<lambda>_.
         hbind (pop_field (h_getitem y ''datagrabber'') ''partial_pattern_ok'') (\<lambda>_.
         hbind (h_getitem data ''datagrabber'') (\<lambda>dg.
         hbind (h_keys dg) (\<lambda>ks.
           drop_datalad y ks))))))))
       else hret ()))"

definition set_preprocess :: "val \<Rightarrow> val \<Rightarrow> unit hm" where
  "set_preprocess data y =
     hbind (h_contains data ''preprocess'') (\<lambda>present.
       if present then
         hbind (copy_section data y ''preprocess'') (\<lambda>_.
         hbind (rename_class (h_getitem y ''preprocess'')) (\<lambda>_. hret ()))
       else hret ())"

text \<open>\<^verbatim>\<open>y["markers"] = []; y["markers"].append(data["marker"].copy())\<close>.\<close>

definition init_markers :: "val \<Rightarrow> val \<Rightarrow> unit hm" where
  "init_markers data y =
     hbind (new_obj (OList [])) (\<lambda>l.
     hbind (h_setitem y ''markers'' l) (\<lambda>_.
     hbind (h_getitem y ''markers'') (\<lambda>ms.
     hbind (h_getitem data ''marker'') (\<lambda>m.
     hbind (h_copy m) (\<lambda>c.
       h_append ms c)))))"

text \<open>The expression \<^verbatim>\<open>y["markers"][0]\<close>.\<close>

definition marker0 :: "val \<Rightarrow> val hm" where
  "marker0 y = hbind (h_getitem y ''markers'') (\<lambda>ms. h_getindex ms 0)"

definition set_markers :: "val \<Rightarrow> val \<Rightarrow> unit hm" where
  "set_markers data y =
     hbind (init_markers data y) (\<lambda>_.
     hbind (rename_class (marker0 y)) (\<lambda>_.
     hbind (marker0 y) (\<lambda>m0.
     hbind (h_getitem m0 ''masks'') (\<lambda>masks.
       if masks = VNone then pop_field (marker0 y) ''masks'' else hret ()))))"

definition set_storage :: "val \<Rightarrow> unit hm" where
  "set_storage y =
     hbind (new_obj (ODict [(''kind'', VStr ''HDF5FeatureStorage''), (''uri'', VStr [])])) (\<lambda>s.
       h_setitem y ''storage'' s)"

definition set_queue :: "val \<Rightarrow> val \<Rightarrow> unit hm" where
  "set_queue data y =
     hbind (h_getitem data ''name'') (\<lambda>n.
     hbind (new_obj (ODict [(''jobname'', n), (''kind'', VStr [])])) (\<lambda>q.
       h_setitem y ''queue'' q))"

definition feature_yaml_from_meta :: "val \<Rightarrow> string \<Rightarrow> val hm" where
  "feature_yaml_from_meta data feature =
     hbind (new_obj (ODict [])) (\<lambda>y.
     hbind (h_setitem y ''workdir'' (VStr [])) (\<lambda>_.
     hbind (set_with data y) (\<lambda>_.
     hbind (set_datagrabber data y) (\<lambda>_.
     hbind (set_preprocess data y) (\<lambda>_.
     hbind (set_markers data y) (\<lambda>_.
     hbind (set_storage y) (\<lambda>_.
     hbind (set_queue data y) (\<lambda>_.
       hret y))))))))"

section \<open>Files, and objects read from and written to them\<close>

text \<open>
  A file is what the program reads from it or wrote to it: the document of a YAML file,
  the titled entries of an HDF5 container. \<open>Truncated\<close> is a file that was opened for
  writing and whose write then failed. The file system is an association list from path
  strings to files; directories are entries too.
\<close>

datatype node = YamlFile pyval | H5File "(string \<times> pyval) list" | Directory | Truncated

type_synonym fs = "(string \<times> node) list"

text \<open>
  The state of a run: the heap of Python objects, the files, and the messages of the
  \<^verbatim>\<open>ds.save\<close> calls made so far. \<open>save_ok\<close> says whether the workspace's save succeeds
  (with \<^verbatim>\<open>on_failure="stop"\<close> it raises otherwise).
\<close>

record world =
  heap :: heap
  files :: fs
  saved :: "string list"
  save_ok :: bool

type_synonym 'a wm = "world \<Rightarrow> (error + 'a) \<times> world"

definition wret :: "'a \<Rightarrow> 'a wm" where
  "wret x = (\<lambda>w. (Inr x, w))"

definition wbind :: "'a wm \<Rightarrow> ('a \<Rightarrow> 'b wm) \<Rightarrow> 'b wm" where
  "wbind m f = (\<lambda>w. case m w of (Inl e, w') \<Rightarrow> (Inl e, w') | (Inr x, w') \<Rightarrow> f x w')"

definition lift_pure :: "error + 'a \<Rightarrow> 'a wm" where
  "lift_pure r = (\<lambda>w. (r, w))"

definition lift_heap :: "'a hm \<Rightarrow> 'a wm" where
  "lift_heap m = (\<lambda>w. case m (heap w) of (r, h') \<Rightarrow> (r, w\<lparr>heap := h'\<rparr>))"

text \<open>
  Reading a document makes fresh objects: the tree is allocated on the heap, children
  first. Writing one walks the objects from a value; the fuel bounds the depth, and the
  number of objects on the heap is enough for every value that has no cycle.
\<close>

fun alloc :: "pyval \<Rightarrow> heap \<Rightarrow> val \<times> heap"
  and alloc_list :: "pyval list \<Rightarrow> heap \<Rightarrow> val list \<times> heap"
  and alloc_items :: "(string \<times> pyval) list \<Rightarrow> heap \<Rightarrow> (string \<times> val) list \<times> heap"
where
  "alloc PNone h = (VNone, h)"
| "alloc (PBool b) h = (VBool b, h)"
| "alloc (PInt i) h = (VInt i, h)"
| "alloc (PStr s) h = (VStr s, h)"
| "alloc (PList xs) h =
     (case alloc_list xs h of (vs, h') \<Rightarrow> (VRef (length h'), h' @ [OList vs]))"
| "alloc (PDict d) h =
     (case alloc_items d h of (kvs, h') \<Rightarrow> (VRef (length h'), h' @ [ODict kvs]))"
| "alloc_list [] h = ([], h)"
| "alloc_list (x # xs) h =
     (case alloc x h of (v, h') \<Rightarrow>
      case alloc_list xs h' of (vs, h'') \<Rightarrow> (v # vs, h''))"
| "alloc_items [] h = ([], h)"
| "alloc_items (kx # kxs) h =
     (case alloc (snd kx) h of (v, h') \<Rightarrow>
      case alloc_items kxs h' of (kvs, h'') \<Rightarrow> ((fst kx, v) # kvs, h''))"

fun those_list :: "'a option list \<Rightarrow> 'a list option" where
  "those_list [] = Some []"
| "those_list (None # xs) = None"
| "those_list (Some x # xs) = (case those_list xs of None \<Rightarrow> None | Some ys \<Rightarrow> Some (x # ys))"

fun reify :: "nat \<Rightarrow> heap \<Rightarrow> val \<Rightarrow> pyval option" where
  "reify n h VNone = Some PNone"
| "reify n h (VBool b) = Some (PBool b)"
| "reify n h (VInt i) = Some (PInt i)"
| "reify n h (VStr s) = Some (PStr s)"
| "reify 0 h (VRef a) = None"
| "reify (Suc n) h (VRef a) =
     (case obj_at h (VRef a) of
        None \<Rightarrow> None
      | Some (OList xs) \<Rightarrow> map_option PList (those_list (map (reify n h) xs))
      | Some (ODict d) \<Rightarrow>
          map_option PDict
            (those_list (map (\<lambda>kv. map_option (Pair (fst kv)) (reify n h (snd kv))) d)))"

text \<open>\<^verbatim>\<open>yaml.load(path)\<close> and \<^verbatim>\<open>Path(p).exists()\<close>.\<close>

definition yaml_load :: "fs \<Rightarrow> string \<Rightarrow> error + pyval" where
  "yaml_load fs path =
     (case map_of fs path of
        None \<Rightarrow> Inl (OSError path)
      | Some (YamlFile v) \<Rightarrow> Inr v
      | Some Directory \<Rightarrow> Inl (OSError path)
      | Some _ \<Rightarrow> Inl YAMLError)"

definition path_exists :: "fs \<Rightarrow> pyval \<Rightarrow> error + bool" where
  "path_exists fs p = (case p of PStr s \<Rightarrow> Inr (s \<in> set (map fst fs)) | _ \<Rightarrow> Inl TypeError)"

text \<open>
  \<^verbatim>\<open>path.open("w")\<close> creates or empties the file; the directory it is in must exist.
  \<^verbatim>\<open>yaml.dump(v, stream=path.open("w"))\<close> then writes the document of \<open>v\<close>.
\<close>

definition open_w :: "string \<Rightarrow> unit wm" where
  "open_w path = (\<lambda>w.
     if map_of (files w) (parent path) \<noteq> Some Directory then (Inl (OSError path), w)
     else if map_of (files w) path = Some Directory then (Inl (OSError path), w)
     else (Inr (), w\<lparr>files := AList.update path Truncated (files w)\<rparr>))"

definition yaml_dump :: "val \<Rightarrow> string \<Rightarrow> unit wm" where
  "yaml_dump v path =
     wbind (open_w path) (\<lambda>_. (\<lambda>w.
       case reify (Suc (length (heap w))) (heap w) v of
         None \<Rightarrow> (Inl RepresenterError, w)
       | Some t \<Rightarrow> (Inr (), w\<lparr>files := AList.update path (YamlFile t) (files w)\<rparr>)))"

text \<open>
  \<^verbatim>\<open>read_hdf5(fname, title, slash="ignore")\<close> reads one titled entry.
  \<^verbatim>\<open>write_hdf5(fname, data, overwrite=True, title, slash="error")\<close> replaces the file by a
  container with that one entry; it refuses a key with a slash below the title, after it
  has opened the file.
\<close>

definition read_hdf5 :: "pyval \<Rightarrow> string \<Rightarrow> pyval wm" where
  "read_hdf5 fname title = (\<lambda>w.
     case fname of
       PStr f \<Rightarrow>
         (case map_of (files w) f of
            Some (H5File entries) \<Rightarrow>
              (case map_of entries title of
                 Some v \<Rightarrow> (Inr v, w)
               | None \<Rightarrow> (Inl (ValueError title), w))
          | _ \<Rightarrow> (Inl (OSError f), w))
     | _ \<Rightarrow> (Inl TypeError, w))"

fun has_slash_key :: "pyval \<Rightarrow> bool" where
  "has_slash_key (PList xs) = list_ex has_slash_key xs"
| "has_slash_key (PDict d) =
     list_ex (\<lambda>kv. CHR ''/'' \<in> set (fst kv) \<or> has_slash_key (snd kv)) d"
| "has_slash_key _ = False"

definition write_hdf5 :: "string \<Rightarrow> pyval \<Rightarrow> string \<Rightarrow> unit wm" where
  "write_hdf5 fname data title =
     wbind (open_w fname) (\<lambda>_. (\<lambda>w.
       if has_slash_key data then (Inl (ValueError title), w)
       else (Inr (), w\<lparr>files := AList.update fname (H5File [(title, data)]) (files w)\<rparr>)))"

text \<open>\<^verbatim>\<open>path.mkdir(exist_ok=True)\<close>.\<close>

definition mkdir_exist_ok :: "string \<Rightarrow> unit wm" where
  "mkdir_exist_ok path = (\<lambda>w.
     case map_of (files w) path of
       Some Directory \<Rightarrow> (Inr (), w)
     | Some _ \<Rightarrow> (Inl (OSError path), w)
     | None \<Rightarrow>
         if map_of (files w) (parent path) = Some Directory
         then (Inr (), w\<lparr>files := AList.update path Directory (files w)\<rparr>)
         else (Inl (OSError path), w))"

section \<open>Loading and validating the descriptor\<close>

definition mandatory :: "string list" where
  "mandatory = [''workdir'', ''datagrabber'', ''markers'', ''storage'']"

definition optional :: "string list" where
  "optional = [''with'', ''preprocess'', ''queue'']"

fun check_mandatory :: "string list \<Rightarrow> string list \<Rightarrow> error + unit" where
  "check_mandatory keys [] = Inr ()"
| "check_mandatory keys (s # ss) =
     (if s \<notin> set keys then Inl (SectionNotDefined s) else check_mandatory keys ss)"

fun check_optional :: "string list \<Rightarrow> error + unit" where
  "check_optional [] = Inr ()"
| "check_optional (k # ks) =
     (if k \<notin> set (mandatory @ optional) then Inl (UnknownSection k) else check_optional ks)"

text \<open>\<^verbatim>\<open>_parse_yaml(yaml_path)\<close>.\<close>

definition parse_yaml :: "(string \<Rightarrow> string) \<Rightarrow> fs \<Rightarrow> string \<Rightarrow> error + pyval" where
  "parse_yaml resolve fs yaml_path =
     ebind (yaml_load fs yaml_path) (\<lambda>contents.
     ebind (py_keys contents) (\<lambda>keys.
     ebind (check_mandatory keys mandatory) (\<lambda>_.
     ebind (check_optional keys) (\<lambda>_.
     ebind (getitem contents ''storage'') (\<lambda>st.
     ebind (py_contains st ''uri'') (\<lambda>has_uri.
       if \<not> has_uri then Inl UriMissing
       else
         ebind (adjust_paths resolve contents yaml_path) (\<lambda>contents.
         ebind (getitem contents ''storage'') (\<lambda>st.
         ebind (getitem st ''uri'') (\<lambda>uri.
         ebind (path_exists fs uri) (\<lambda>found.
           if \<not> found then Inl (StorageFileMissing (case uri of PStr s \<Rightarrow> s | _ \<Rightarrow> []))
           else
             ebind (py_contains contents ''elements'') (\<lambda>has_elements.
               if has_elements then
                 ebind (getitem contents ''elements'') (\<lambda>el.
                   if el = PNone then ebind (py_pop contents ''elements'') (\<lambda>r. Inr (snd r))
                   else Inr contents)
               else Inr contents)))))))))))"

section \<open>Decomposing the combined store\<close>

text \<open>The expression \<^verbatim>\<open>data["storage"]["uri"]\<close>.\<close>

definition storage_uri :: "pyval \<Rightarrow> error + pyval" where
  "storage_uri data = ebind (getitem data ''storage'') (\<lambda>st. getitem st ''uri'')"

text \<open>\<^verbatim>\<open>metadata.items()\<close>.\<close>

definition h_items :: "val \<Rightarrow> (string \<times> val) list hm" where
  "h_items v = (\<lambda>h.
     case obj_at h v of
       Some (ODict d) \<Rightarrow> (Inr d, h)
     | _ \<Rightarrow> (Inl AttributeError, h))"

text \<open>
  The loop of \<^verbatim>\<open>_process_hdf5\<close> over the items of the metadata. The variable \<open>data\<close> is
  the function's parameter (the descriptor) when the loop starts, and the loop body
  assigns to it what it read for the key: the next turn evaluates
  \<^verbatim>\<open>data["storage"]["uri"]\<close> on that.
\<close>

fun features_loop ::
  "(string \<Rightarrow> string) \<Rightarrow> string \<Rightarrow> (string \<times> val) list \<Rightarrow> pyval \<Rightarrow> unit wm" where
  "features_loop resolve feature_dir [] data = wret ()"
| "features_loop resolve feature_dir (kv # kvs) data =
     wbind (yaml_dump (snd kv) (joinpath feature_dir (''feature-'' @ fst kv @ ''-meta.yaml''))) (\<lambda>_.
     wbind (lift_heap (feature_yaml_from_meta (snd kv) (fst kv))) (\<lambda>yaml_data.
     wbind (yaml_dump yaml_data (joinpath feature_dir (''feature-'' @ fst kv @ ''.yml''))) (\<lambda>_.
     wbind (lift_pure (storage_uri data)) (\<lambda>uri.
     wbind (read_hdf5 uri (fst kv)) (\<lambda>data.
     wbind (write_hdf5 (resolve (joinpath feature_dir (''feature-'' @ fst kv @ ''.h5''))) data (fst kv)) (\<lambda>_.
       features_loop resolve feature_dir kvs data))))))"

text \<open>\<^verbatim>\<open>_process_hdf5(data, ds)\<close>; the dataset \<open>ds\<close> is the path of its directory.\<close>

definition process_hdf5 :: "(string \<Rightarrow> string) \<Rightarrow> pyval \<Rightarrow> string \<Rightarrow> unit wm" where
  "process_hdf5 resolve data ds =
     wbind (lift_pure (storage_uri data)) (\<lambda>_.
     wbind (lift_pure (storage_uri data)) (\<lambda>uri.
     wbind (read_hdf5 uri ''meta'') (\<lambda>tree.
     wbind (lift_heap (\<lambda>h. case alloc tree h of (v, h') \<Rightarrow> (Inr v, h'))) (\<lambda>metadata.
     wbind (mkdir_exist_ok (joinpath ds ''features'')) (\<lambda>_.
     wbind (lift_heap (h_items metadata)) (\<lambda>items.
       features_loop resolve (joinpath ds ''features'') items data))))))"

section \<open>The orchestrator\<close>

text \<open>\<^verbatim>\<open>ds.save(message=..., on_failure="stop")\<close>: the call is recorded, then it may fail.\<close>

definition ds_save :: "string \<Rightarrow> unit wm" where
  "ds_save message = (\<lambda>w.
     (if save_ok w then Inr () else Inl IncompleteResultsError,
      w\<lparr>saved := saved w @ [message]\<rparr>))"

text \<open>
  The \<^verbatim>\<open>if\<close> / \<^verbatim>\<open>elif\<close> / \<^verbatim>\<open>else\<close> of \<^verbatim>\<open>process_features\<close> on the extension of the storage
  uri: \<open>.hdf5\<close> is decomposed, \<open>.sqlite\<close> does nothing (\<^verbatim>\<open>pass\<close>), anything else raises.
\<close>

definition dispatch_storage :: "(string \<Rightarrow> string) \<Rightarrow> pyval \<Rightarrow> string \<Rightarrow> unit wm" where
  "dispatch_storage resolve data ds =
     wbind (lift_pure (storage_uri data)) (\<lambda>uri.
     wbind (lift_pure (py_endswith uri ''.hdf5'')) (\<lambda>is_hdf5.
       if is_hdf5 then process_hdf5 resolve data ds
       else
         wbind (lift_pure (storage_uri data)) (\<lambda>uri.
         wbind (lift_pure (py_endswith uri ''.sqlite'')) (\<lambda>is_sqlite.
           if is_sqlite then wret ()
           else
             wbind (lift_pure (storage_uri data)) (\<lambda>uri.
               lift_pure (Inl (UnsupportedFormat
                 (case uri of PStr s \<Rightarrow> suffix_of s | _ \<Rightarrow> []))))))))"

text \<open>\<^verbatim>\<open>process_features(yaml_path, ds)\<close>: load, dispatch, then save.\<close>

definition process_features :: "(string \<Rightarrow> string) \<Rightarrow> string \<Rightarrow> string \<Rightarrow> unit wm" where
  "process_features resolve yaml_path ds =
     wbind (\<lambda>w. (parse_yaml resolve (files w) yaml_path, w)) (\<lambda>data.
     wbind (dispatch_storage resolve data ds) (\<lambda>_.
       ds_save (''[julio] add features for '' @ name_of yaml_path)))"

section \<open>Normal forms of paths\<close>

text \<open>
  Predicates used to state what path normalisation establishes: a value is resolved when
  it is an absolute path string that \<open>resolve\<close> leaves as it is; a section of the
  descriptor is in normal form when its paths are.
\<close>

definition good_parts :: "string list \<Rightarrow> bool" where
  "good_parts ps = (\<forall>c \<in> set ps. c \<noteq> [] \<and> c \<noteq> ''.'' \<and> c \<noteq> ''..'' \<and> CHR ''/'' \<notin> set c)"

definition resolved :: "(string \<Rightarrow> string) \<Rightarrow> pyval \<Rightarrow> bool" where
  "resolved resolve v = (case v of PStr p \<Rightarrow> is_absolute p \<and> resolve p = p | _ \<Rightarrow> False)"

definition nf_workdir :: "(string \<Rightarrow> string) \<Rightarrow> pyval option \<Rightarrow> bool" where
  "nf_workdir resolve wd =
     (case wd of
        None \<Rightarrow> True
      | Some (PStr p) \<Rightarrow> resolved resolve (PStr p)
      | Some (PDict f) \<Rightarrow> (case map_of f ''path'' of Some v \<Rightarrow> resolved resolve v | None \<Rightarrow> False)
      | Some _ \<Rightarrow> False)"

definition nf_with :: "(string \<Rightarrow> string) \<Rightarrow> string \<Rightarrow> pyval option \<Rightarrow> bool" where
  "nf_with resolve base w =
     (case w of
        None \<Rightarrow> True
      | Some (PList ws) \<Rightarrow> adjust_mods resolve base ws = Inr ws
      | Some _ \<Rightarrow> False)"

definition nf_storage :: "(string \<Rightarrow> string) \<Rightarrow> pyval option \<Rightarrow> bool" where
  "nf_storage resolve st =
     (case st of
        Some (PDict f) \<Rightarrow> (case map_of f ''uri'' of Some v \<Rightarrow> resolved resolve v | None \<Rightarrow> False)
      | _ \<Rightarrow> False)"

section \<open>Lemmas\<close>

lemma ebind_Inl [simp]: "ebind (Inl e) f = Inl e"
  by (simp add: ebind_def)

lemma ebind_Inr [simp]: "ebind (Inr x) f = f x"
  by (simp add: ebind_def)

subsection \<open>The concrete resolve\<close>

lemma split_slash_no_slash: "c \<in> set (split_slash s) \<Longrightarrow> CHR ''/'' \<notin> set c"
  by (induction s arbitrary: c) (auto split: if_splits list.splits)

lemma split_slash_plain: "CHR ''/'' \<notin> set x \<Longrightarrow> split_slash x = [x]"
  by (induction x) auto

lemma split_slash_append:
  "CHR ''/'' \<notin> set x \<Longrightarrow> split_slash (x @ CHR ''/'' # r) = x # split_slash r"
  by (induction x) auto

lemma split_join_slash:
  "good_parts ps \<Longrightarrow> ps \<noteq> [] \<Longrightarrow> split_slash (join_slash ps) = ps"
proof (induction ps rule: join_slash.induct)
  case 1
  then show ?case by simp
next
  case (2 x)
  then show ?case by (simp add: good_parts_def split_slash_plain)
next
  case (3 x y ys)
  then show ?case by (simp add: good_parts_def split_slash_append)
qed

lemma butlast_good: "good_parts acc \<Longrightarrow> good_parts (butlast acc)"
  by (auto simp: good_parts_def dest: in_set_butlastD)

lemma good_parts_snoc:
  "good_parts acc \<Longrightarrow> c \<noteq> [] \<Longrightarrow> c \<noteq> ''.'' \<Longrightarrow> c \<noteq> ''..'' \<Longrightarrow> CHR ''/'' \<notin> set c
     \<Longrightarrow> good_parts (acc @ [c])"
  by (simp add: good_parts_def)

lemma norm_parts_good:
  "good_parts acc \<Longrightarrow> \<forall>c \<in> set cs. CHR ''/'' \<notin> set c \<Longrightarrow> good_parts (norm_parts acc cs)"
proof (induction cs arbitrary: acc)
  case Nil
  then show ?case by simp
next
  case (Cons c cs)
  from Cons.prems(2) have cs: "\<forall>c \<in> set cs. CHR ''/'' \<notin> set c" and c: "CHR ''/'' \<notin> set c"
    by simp_all
  consider "c = [] \<or> c = ''.''" | "c = ''..''" | "c \<noteq> []" "c \<noteq> ''.''" "c \<noteq> ''..''"
    by blast
  then show ?case
  proof cases
    case 1
    then have "norm_parts acc (c # cs) = norm_parts acc cs" by auto
    with Cons.IH[OF Cons.prems(1) cs] show ?thesis by simp
  next
    case 2
    then have "norm_parts acc (c # cs) = norm_parts (butlast acc) cs" by simp
    with Cons.IH[OF butlast_good[OF Cons.prems(1)] cs] show ?thesis by simp
  next
    case 3
    then have "norm_parts acc (c # cs) = norm_parts (acc @ [c]) cs" by simp
    with Cons.IH[OF good_parts_snoc[OF Cons.prems(1) 3 c] cs] show ?thesis by simp
  qed
qed

lemma norm_parts_id: "good_parts ps \<Longrightarrow> norm_parts acc ps = acc @ ps"
proof (induction ps arbitrary: acc)
  case Nil
  then show ?case by simp
next
  case (Cons c cs)
  then have c: "c \<noteq> []" "c \<noteq> ''.''" "c \<noteq> ''..''" and cs: "good_parts cs"
    by (simp_all add: good_parts_def)
  from c have "norm_parts acc (c # cs) = norm_parts (acc @ [c]) cs" by simp
  with Cons.IH[OF cs] show ?case by simp
qed

lemma posix_resolve_absolute: "is_absolute (posix_resolve cwd p)"
  by (simp add: posix_resolve_def is_absolute_def)

lemma posix_resolve_idem: "posix_resolve cwd (posix_resolve cwd p) = posix_resolve cwd p"
proof -
  define ps where "ps = norm_parts [] (split_slash (joinpath cwd p))"
  have good: "good_parts ps"
    unfolding ps_def
    by (rule norm_parts_good) (auto simp: good_parts_def dest: split_slash_no_slash)
  have r: "posix_resolve cwd p = CHR ''/'' # join_slash ps"
    by (simp add: posix_resolve_def ps_def)
  have "norm_parts [] (split_slash (CHR ''/'' # join_slash ps)) = ps"
  proof (cases "ps = []")
    case True
    then show ?thesis by simp
  next
    case False
    with good show ?thesis by (simp add: split_join_slash norm_parts_id)
  qed
  moreover have "joinpath cwd (CHR ''/'' # join_slash ps) = CHR ''/'' # join_slash ps"
    by (simp add: joinpath_def is_absolute_def)
  ultimately have "posix_resolve cwd (CHR ''/'' # join_slash ps) = CHR ''/'' # join_slash ps"
    by (simp only: posix_resolve_def)
  then show ?thesis by (simp only: r)
qed

subsection \<open>Path normalisation, block by block\<close>

lemma ebind_Inr_iff: "ebind m f = Inr y \<longleftrightarrow> (\<exists>x. m = Inr x \<and> f x = Inr y)"
  by (cases m) simp_all

lemma in_keys_iff: "k \<in> fst ` set d \<longleftrightarrow> map_of d k \<noteq> None"
  by (simp add: map_of_eq_None_iff)

lemma py_contains_PDict: "py_contains (PDict d) k = Inr (map_of d k \<noteq> None)"
  by (simp add: py_contains_def in_keys_iff)

lemma make_absolute_path_resolved:
  assumes "\<forall>p. is_absolute (resolve p)" "\<forall>p. resolve (resolve p) = resolve p"
    and "make_absolute_path resolve v base = Inr p"
  shows "resolved resolve (PStr p)"
  using assms by (auto simp: make_absolute_path_def resolved_def split: pyval.splits)

lemma make_absolute_path_fix:
  "resolved resolve v \<Longrightarrow> \<exists>p. v = PStr p \<and> make_absolute_path resolve v base = Inr p"
  by (auto simp: make_absolute_path_def resolved_def split: pyval.splits)

lemma getitem_PDict:
  "getitem (PDict d) k = (case map_of d k of Some x \<Rightarrow> Inr x | None \<Rightarrow> Inl (KeyError k))"
  by (simp add: getitem_def)

lemma setitem_PDict: "setitem (PDict d) k x = Inr (PDict (AList.update k x d))"
  by (simp add: setitem_def)

lemma getitem_Inr_dict: "getitem v k = Inr x \<Longrightarrow> \<exists>d. v = PDict d \<and> map_of d k = Some x"
  by (cases v) (auto simp: getitem_def split: option.splits)

lemma adjust_workdir_nondict:
  assumes "\<And>d. data \<noteq> PDict d" and "adjust_workdir resolve data yp = Inr d'"
  shows "d' = data"
proof (cases "py_contains data ''workdir''")
  case (Inl e)
  with assms(2) show ?thesis by (simp add: adjust_workdir_def)
next
  case (Inr b)
  show ?thesis
  proof (cases b)
    case True
    have "getitem data ''workdir'' = Inl TypeError"
      by (cases data) (use assms(1) in \<open>auto simp: getitem_def\<close>)
    with Inr True assms(2) show ?thesis by (simp add: adjust_workdir_def)
  next
    case False
    with Inr assms(2) show ?thesis by (simp add: adjust_workdir_def)
  qed
qed

lemma adjust_workdir_post:
  assumes "\<forall>p. is_absolute (resolve p)" "\<forall>p. resolve (resolve p) = resolve p"
    and "adjust_workdir resolve (PDict d) yp = Inr d'"
  shows "\<exists>dd. d' = PDict dd \<and> nf_workdir resolve (map_of dd ''workdir'')
           \<and> (\<forall>k. k \<noteq> ''workdir'' \<longrightarrow> map_of dd k = map_of d k)"
proof (cases "map_of d ''workdir''")
  case None
  with assms(3) show ?thesis
    by (auto simp: adjust_workdir_def py_contains_PDict nf_workdir_def)
next
  case (Some wd)
  show ?thesis
  proof (cases wd)
    case (PStr s)
    with Some assms(3) obtain p where p: "make_absolute_path resolve wd (parent yp) = Inr p"
      and d': "d' = PDict (AList.update ''workdir'' (PStr p) d)"
      by (auto simp: adjust_workdir_def py_contains_PDict getitem_PDict setitem_PDict
          ebind_Inr_iff)
    from make_absolute_path_resolved[OF assms(1,2) p] have "resolved resolve (PStr p)" .
    with d' show ?thesis
      by (simp add: nf_workdir_def update_conv')
  next
    case (PDict f)
    with Some assms(3) obtain old p where
      old: "map_of f ''path'' = Some old"
      and p: "make_absolute_path resolve old (parent yp) = Inr p"
      and d': "d' = PDict (AList.update ''workdir'' (PDict (AList.update ''path'' (PStr p) f)) d)"
      by (auto simp: adjust_workdir_def py_contains_PDict getitem_PDict setitem_PDict
          ebind_Inr_iff split: option.splits)
    from make_absolute_path_resolved[OF assms(1,2) p] have "resolved resolve (PStr p)" .
    with d' show ?thesis
      by (simp add: nf_workdir_def update_conv')
  qed (use Some assms(3) in
      \<open>auto simp: adjust_workdir_def py_contains_PDict getitem_PDict getitem_def ebind_Inr_iff\<close>)
qed

lemma adjust_workdir_fix:
  assumes "nf_workdir resolve (map_of d ''workdir'')"
  shows "adjust_workdir resolve (PDict d) yp = Inr (PDict d)"
proof (cases "map_of d ''workdir''")
  case None
  then show ?thesis by (simp add: adjust_workdir_def py_contains_PDict)
next
  case (Some wd)
  show ?thesis
  proof (cases wd)
    case (PStr s)
    with Some assms have "resolved resolve wd" by (simp add: nf_workdir_def)
    from make_absolute_path_fix[OF this, of "parent yp"] PStr
    have "make_absolute_path resolve wd (parent yp) = Inr s" by auto
    with Some PStr show ?thesis
      by (simp add: adjust_workdir_def py_contains_PDict getitem_PDict setitem_PDict update_triv)
  next
    case (PDict f)
    with Some assms obtain v where v: "map_of f ''path'' = Some v" "resolved resolve v"
      by (auto simp: nf_workdir_def split: option.splits)
    from make_absolute_path_fix[OF v(2), of "parent yp"] obtain s where
      s: "v = PStr s" "make_absolute_path resolve v (parent yp) = Inr s" by auto
    with Some PDict v show ?thesis
      by (simp add: adjust_workdir_def py_contains_PDict getitem_PDict setitem_PDict update_triv)
  qed (use Some assms in \<open>simp_all add: nf_workdir_def\<close>)
qed

lemma adjust_mods_fix:
  assumes "\<forall>p. is_absolute (resolve p)" "\<forall>p. resolve (resolve p) = resolve p"
  shows "adjust_mods resolve base ws = Inr ms \<Longrightarrow> adjust_mods resolve base ms = Inr ms"
proof (induction ws arbitrary: ms)
  case Nil
  then show ?case by simp
next
  case (Cons w ws)
  from Cons.prems obtain b m ms' where
    b: "py_endswith w ''.py'' = Inr b"
    and m: "(if b then ebind (make_absolute_path resolve w base) (\<lambda>p. Inr (PStr p)) else Inr w) = Inr m"
    and ms': "adjust_mods resolve base ws = Inr ms'" and ms: "ms = m # ms'"
    by (auto simp: ebind_Inr_iff)
  from Cons.IH[OF ms'] have IH: "adjust_mods resolve base ms' = Inr ms'" .
  have "ebind (py_endswith m ''.py'') (\<lambda>is_py.
          if is_py then ebind (make_absolute_path resolve m base) (\<lambda>p. Inr (PStr p)) else Inr m)
        = Inr m"
  proof (cases b)
    case True
    with m obtain p where p: "make_absolute_path resolve w base = Inr p" "m = PStr p"
      by (auto simp: ebind_Inr_iff)
    from make_absolute_path_resolved[OF assms p(1)] have "resolved resolve (PStr p)" .
    from make_absolute_path_fix[OF this, of base] have "make_absolute_path resolve (PStr p) base = Inr p"
      by simp
    with p(2) show ?thesis by (simp add: py_endswith_def)
  next
    case False
    with m b show ?thesis by simp
  qed
  then have "ebind (py_endswith m ''.py'') (\<lambda>is_py.
          ebind (if is_py then ebind (make_absolute_path resolve m base) (\<lambda>p. Inr (PStr p)) else Inr m)
            (\<lambda>m'. ebind (adjust_mods resolve base ms') (\<lambda>ms. Inr (m' # ms)))) = Inr (m # ms')"
    using IH by (cases "py_endswith m ''.py''") (auto split: if_splits)
  with ms show ?case by simp
qed

lemma adjust_with_nondict:
  assumes "\<And>d. data \<noteq> PDict d" and "adjust_with resolve data yp = Inr d'"
  shows "d' = data"
proof (cases "py_contains data ''with''")
  case (Inl e)
  with assms(2) show ?thesis by (simp add: adjust_with_def)
next
  case (Inr b)
  show ?thesis
  proof (cases b)
    case True
    have "getitem data ''with'' = Inl TypeError"
      by (cases data) (use assms(1) in \<open>auto simp: getitem_def\<close>)
    with Inr True assms(2) show ?thesis by (simp add: adjust_with_def)
  next
    case False
    with Inr assms(2) show ?thesis by (simp add: adjust_with_def)
  qed
qed

lemma adjust_with_post:
  assumes "\<forall>p. is_absolute (resolve p)" "\<forall>p. resolve (resolve p) = resolve p"
    and "adjust_with resolve (PDict d) yp = Inr d'"
  shows "\<exists>dd. d' = PDict dd \<and> nf_with resolve (parent yp) (map_of dd ''with'')
           \<and> (\<forall>k. k \<noteq> ''with'' \<longrightarrow> map_of dd k = map_of d k)"
proof (cases "map_of d ''with''")
  case None
  with assms(3) show ?thesis
    by (auto simp: adjust_with_def py_contains_PDict nf_with_def)
next
  case (Some w)
  with assms(3) obtain ws mods where
    mods: "adjust_mods resolve (parent yp) ws = Inr mods"
    and d': "d' = PDict (AList.update ''with'' (PList mods) d)"
    by (auto simp: adjust_with_def py_contains_PDict getitem_PDict setitem_PDict ebind_Inr_iff)
  from adjust_mods_fix[OF assms(1,2) mods] d' show ?thesis
    by (simp add: nf_with_def update_conv')
qed

lemma adjust_with_fix:
  assumes "nf_with resolve (parent yp) (map_of d ''with'')"
  shows "adjust_with resolve (PDict d) yp = Inr (PDict d)"
proof (cases "map_of d ''with''")
  case None
  then show ?thesis by (simp add: adjust_with_def py_contains_PDict)
next
  case (Some w)
  with assms obtain ws where "w = PList ws" "adjust_mods resolve (parent yp) ws = Inr ws"
    by (cases w) (simp_all add: nf_with_def)
  with Some show ?thesis
    by (simp add: adjust_with_def py_contains_PDict getitem_PDict setitem_PDict update_triv)
qed

lemma adjust_storage_post:
  assumes "\<forall>p. is_absolute (resolve p)" "\<forall>p. resolve (resolve p) = resolve p"
    and "adjust_storage resolve data yp = Inr d'"
  shows "\<exists>d dd. data = PDict d \<and> d' = PDict dd \<and> nf_storage resolve (map_of dd ''storage'')
           \<and> (\<forall>k. k \<noteq> ''storage'' \<longrightarrow> map_of dd k = map_of d k)"
proof -
  from assms(3) obtain st old p st' where
    st: "getitem data ''storage'' = Inr st" and old: "getitem st ''uri'' = Inr old"
    and p: "make_absolute_path resolve old (parent yp) = Inr p"
    and st': "setitem st ''uri'' (PStr p) = Inr st'"
    and d': "setitem data ''storage'' st' = Inr d'"
    by (auto simp: adjust_storage_def ebind_Inr_iff)
  from getitem_Inr_dict[OF st] obtain d where d: "data = PDict d" by auto
  from getitem_Inr_dict[OF old] obtain f where f: "st = PDict f" by auto
  from make_absolute_path_resolved[OF assms(1,2) p] have "resolved resolve (PStr p)" .
  with d f st' d' show ?thesis
    by (auto simp: setitem_PDict nf_storage_def update_conv')
qed

lemma adjust_storage_fix:
  assumes "nf_storage resolve (map_of d ''storage'')"
  shows "adjust_storage resolve (PDict d) yp = Inr (PDict d)"
proof -
  from assms obtain f v where f: "map_of d ''storage'' = Some (PDict f)"
    and v: "map_of f ''uri'' = Some v" "resolved resolve v"
    by (auto simp: nf_storage_def split: option.splits pyval.splits)
  from make_absolute_path_fix[OF v(2), of "parent yp"] obtain s where
    s: "v = PStr s" "make_absolute_path resolve v (parent yp) = Inr s" by auto
  with f v show ?thesis
    by (simp add: adjust_storage_def getitem_PDict setitem_PDict update_triv)
qed

section \<open>The claims\<close>

text \<open>
  C2. The claim: a descriptor with the four mandatory sections and a top-level key
  \<open>elements\<close> whose value is null is loaded, and the key is removed. The code rejects it:
  \<open>elements\<close> is in neither \<open>mandatory\<close> nor \<open>optional\<close>, so the loop over the keys raises
  "Unknown section" before the statements that would remove the key are reached.
\<close>

theorem parse_yaml_elements_null_rejected:
  "parse_yaml (posix_resolve ''/'')
     [(''/reg/d.yaml'', YamlFile (PDict
        [(''workdir'', PStr ''wd''), (''datagrabber'', PDict []), (''markers'', PList []),
         (''storage'', PDict [(''uri'', PStr ''store.hdf5'')]),
         (''elements'', PNone)])),
      (''/reg/store.hdf5'', H5File [])]
     ''/reg/d.yaml''
   = Inl (UnknownSection ''elements'')"
  by code_simp

text \<open>
  C4. The claim: a \<open>with\<close> value that is not a list becomes a one-element sequence holding
  that value, and the \<open>.py\<close> rule is applied to the element. The code calls
  \<^verbatim>\<open>list(data["with"])\<close>, which splits the string \<open>mod.py\<close> into its six characters; none
  of them ends in \<open>.py\<close>, so none is made absolute.
\<close>

theorem adjust_paths_with_string_split:
  "adjust_paths (posix_resolve ''/'')
     (PDict [(''workdir'', PStr ''wd''), (''with'', PStr ''mod.py''),
             (''storage'', PDict [(''uri'', PStr ''store.hdf5'')])])
     ''/reg/d.yaml''
   = Inr (PDict [(''workdir'', PStr ''/reg/wd''),
                 (''with'', PList [PStr ''m'', PStr ''o'', PStr ''d'', PStr ''.'', PStr ''p'', PStr ''y'']),
                 (''storage'', PDict [(''uri'', PStr ''/reg/store.hdf5'')])])"
  by code_simp

text \<open>
  C7. Path normalisation is idempotent: for every descriptor, normalising twice with the
  same descriptor path gives what normalising once gives (the same descriptor, or the
  same error). \<open>resolve\<close> is the file system's: it returns an absolute path, and resolving
  a resolved path changes nothing.
\<close>

theorem adjust_paths_idempotent:
  assumes "\<forall>p. is_absolute (resolve p)" "\<forall>p. resolve (resolve p) = resolve p"
  shows "ebind (adjust_paths resolve data yp) (\<lambda>d'. adjust_paths resolve d' yp)
           = adjust_paths resolve data yp"
proof (cases "adjust_paths resolve data yp")
  case (Inl e)
  then show ?thesis by simp
next
  case (Inr d3)
  then obtain d1 d2 where
    s1: "adjust_workdir resolve data yp = Inr d1"
    and s2: "adjust_with resolve d1 yp = Inr d2"
    and s3: "adjust_storage resolve d2 yp = Inr d3"
    by (auto simp: adjust_paths_def ebind_Inr_iff)
  from adjust_storage_post[OF assms s3] obtain dd2 dd3 where
    d2: "d2 = PDict dd2" and d3: "d3 = PDict dd3"
    and nf3: "nf_storage resolve (map_of dd3 ''storage'')"
    and fr3: "\<forall>k. k \<noteq> ''storage'' \<longrightarrow> map_of dd3 k = map_of dd2 k"
    by auto
  have "\<exists>dd1. d1 = PDict dd1"
  proof (rule ccontr)
    assume "\<not> (\<exists>dd1. d1 = PDict dd1)"
    then have "\<And>d. d1 \<noteq> PDict d" by auto
    from adjust_with_nondict[OF this s2] d2 this show False by auto
  qed
  then obtain dd1 where d1: "d1 = PDict dd1" by auto
  have "\<exists>d. data = PDict d"
  proof (rule ccontr)
    assume "\<not> (\<exists>d. data = PDict d)"
    then have "\<And>d. data \<noteq> PDict d" by auto
    from adjust_workdir_nondict[OF this s1] d1 this show False by auto
  qed
  then obtain d where d: "data = PDict d" by auto
  from adjust_workdir_post[OF assms s1[unfolded d]] d1 have
    nf1: "nf_workdir resolve (map_of dd1 ''workdir'')" by auto
  from adjust_with_post[OF assms s2[unfolded d1]] d2 have
    nf2: "nf_with resolve (parent yp) (map_of dd2 ''with'')"
    and fr2: "\<forall>k. k \<noteq> ''with'' \<longrightarrow> map_of dd2 k = map_of dd1 k" by auto
  from fr2 fr3 have "map_of dd3 ''workdir'' = map_of dd1 ''workdir''" by simp
  with nf1 have r1: "adjust_workdir resolve d3 yp = Inr d3"
    by (simp add: d3 adjust_workdir_fix)
  from fr3 have "map_of dd3 ''with'' = map_of dd2 ''with''" by simp
  with nf2 have r2: "adjust_with resolve d3 yp = Inr d3"
    by (simp add: d3 adjust_with_fix)
  from nf3 have r3: "adjust_storage resolve d3 yp = Inr d3"
    by (simp add: d3 adjust_storage_fix)
  from r1 r2 r3 have "adjust_paths resolve d3 yp = Inr d3"
    by (simp add: adjust_paths_def)
  with Inr show ?thesis by simp
qed

text \<open>The hypotheses hold of the concrete \<open>resolve\<close>, on a descriptor that normalises.\<close>

theorem adjust_paths_idempotent_witness:
  "(\<forall>p. is_absolute (posix_resolve ''/'' p))
   \<and> (\<forall>p. posix_resolve ''/'' (posix_resolve ''/'' p) = posix_resolve ''/'' p)
   \<and> adjust_paths (posix_resolve ''/'')
        (PDict [(''workdir'', PDict [(''path'', PStr ''wd'')]), (''with'', PList [PStr ''a/../mod.py'', PStr ''numpy'']),
                (''storage'', PDict [(''uri'', PStr ''store.hdf5'')])])
        ''/reg/d.yaml''
      = Inr (PDict [(''workdir'', PDict [(''path'', PStr ''/reg/wd'')]),
                    (''with'', PList [PStr ''/reg/mod.py'', PStr ''numpy'']),
                    (''storage'', PDict [(''uri'', PStr ''/reg/store.hdf5'')])])
   \<and> ebind (adjust_paths (posix_resolve ''/'')
        (PDict [(''workdir'', PDict [(''path'', PStr ''wd'')]), (''with'', PList [PStr ''a/../mod.py'', PStr ''numpy'']),
                (''storage'', PDict [(''uri'', PStr ''store.hdf5'')])])
        ''/reg/d.yaml'') (\<lambda>d'. adjust_paths (posix_resolve ''/'') d' ''/reg/d.yaml'')
      = adjust_paths (posix_resolve ''/'')
        (PDict [(''workdir'', PDict [(''path'', PStr ''wd'')]), (''with'', PList [PStr ''a/../mod.py'', PStr ''numpy'']),
                (''storage'', PDict [(''uri'', PStr ''store.hdf5'')])])
        ''/reg/d.yaml''"
proof -
  have a: "\<forall>p. is_absolute (posix_resolve ''/'' p)"
    by (simp add: posix_resolve_absolute)
  have b: "\<forall>p. posix_resolve ''/'' (posix_resolve ''/'' p) = posix_resolve ''/'' p"
    by (simp add: posix_resolve_idem)
  have c: "adjust_paths (posix_resolve ''/'')
        (PDict [(''workdir'', PDict [(''path'', PStr ''wd'')]), (''with'', PList [PStr ''a/../mod.py'', PStr ''numpy'']),
                (''storage'', PDict [(''uri'', PStr ''store.hdf5'')])])
        ''/reg/d.yaml''
      = Inr (PDict [(''workdir'', PDict [(''path'', PStr ''/reg/wd'')]),
                    (''with'', PList [PStr ''/reg/mod.py'', PStr ''numpy'']),
                    (''storage'', PDict [(''uri'', PStr ''/reg/store.hdf5'')])])"
    by code_simp
  from a b c adjust_paths_idempotent [OF a b] show ?thesis
    by blast
qed

end
